theory Spec2Isabelle
  imports Main "HOL-Library.Sublist"
begin

section \<open>The module-aware Go command runner (pkg/gomodcmd/runner.go)\<close>

text \<open>
  The runner shells out to the Go tool and touches the file system. Both are outside the
  program, so the model takes them as a parameter: a \<open>system\<close> answers every call of
  the program as a function of the calls made so far (the trace) and of the call's
  arguments. The program threads the trace and appends one event per call, so that a
  theorem can say which calls were made, in which order, and with which arguments.
  The context argument of the Go functions only influences what the subprocess call
  returns (a cancelled context makes \<open>cmd.Run\<close> fail); it is part of the system's answer.
\<close>

subsection \<open>Strings\<close>

text \<open>Go strings are byte sequences; \<open>string\<close> is a list of 8-bit characters.\<close>

text \<open>\<open>strings.HasPrefix\<close>.\<close>

definition HasPrefix :: "string \<Rightarrow> string \<Rightarrow> bool" where
  "HasPrefix s pre = (length pre \<le> length s \<and> take (length pre) s = pre)"

text \<open>\<open>strings.TrimRight\<close>, for a cutset of ASCII bytes: all trailing bytes of the cutset go.\<close>

definition TrimRight :: "string \<Rightarrow> string \<Rightarrow> string" where
  "TrimRight s cutset = rev (dropWhile (\<lambda>c. c \<in> set cutset) (rev s))"

text \<open>\<open>strings.Join\<close>.\<close>

fun strings_Join :: "string list \<Rightarrow> string \<Rightarrow> string" where
  "strings_Join [] sep = []"
| "strings_Join [x] sep = x"
| "strings_Join (x # y # ys) sep = x @ sep @ strings_Join (y # ys) sep"

subsection \<open>Errors\<close>

text \<open>
  An error of the program is its message, the text that \<open>Error()\<close> returns.
  \<open>errors.New\<close> and \<open>errors.Errorf\<close> build the message, \<open>errors.Wrap\<close> and
  \<open>errors.Wrapf\<close> put \<open>msg: \<close> in front of the cause's message.
\<close>

datatype error = Error string

fun Wrap :: "error \<Rightarrow> string \<Rightarrow> error" where
  "Wrap (Error cause) msg = Error (msg @ '': '' @ cause)"

text \<open>
  What \<open>cmd.Run\<close> returns besides the captured output: an error for which the type
  assertion \<open>err.(*exec.ExitError)\<close> holds (the command ran and did not exit with status
  zero) or any other error (the command could not be found or started), each with its
  message, the text that \<open>%v\<close> prints.
\<close>

datatype run_error = ExitError string | OtherError string

fun run_error_text :: "run_error \<Rightarrow> string" where
  "run_error_text (ExitError e) = e"
| "run_error_text (OtherError e) = e"

text \<open>An error of the \<open>os\<close> package: whether \<open>os.IsNotExist\<close> holds of it, and its message.\<close>

datatype os_error = OsError bool string

fun IsNotExist :: "os_error \<Rightarrow> bool" where
  "IsNotExist (OsError ne _) = ne"

fun os_error_text :: "os_error \<Rightarrow> string" where
  "os_error_text (OsError _ e) = e"

subsection \<open>The system\<close>

text \<open>
  An event is one call that leaves the program: a subprocess run (directory, command,
  arguments), \<open>os.MkdirAll\<close> (path) or \<open>os.Stat\<close> (path).
\<close>

datatype event = Run string string "string list" | MkdirAll string | Stat string

text \<open>
  \<open>filepath_Join\<close> is \<open>filepath.Join\<close> of the Go standard library (it depends on the
  platform). \<open>cmd_Run\<close> gives the combined standard output and standard error of the
  subprocess and its error, if any.
\<close>

record system =
  filepath_Join :: "string list \<Rightarrow> string"
  cmd_Run :: "event list \<Rightarrow> string \<Rightarrow> string \<Rightarrow> string list \<Rightarrow> string \<times> run_error option"
  os_MkdirAll :: "event list \<Rightarrow> string \<Rightarrow> os_error option"
  os_Stat :: "event list \<Rightarrow> string \<Rightarrow> os_error option"

subsection \<open>The runner\<close>

record Runner =
  goCmd :: string
  modDir :: string
  insecure :: bool
  verbose :: bool

text \<open>The message of the wrapped form of a subprocess failure.\<close>

definition command_line :: "string \<Rightarrow> string list \<Rightarrow> string" where
  "command_line command args = command @ '' '' @ strings_Join args '' ''"

definition run_failure :: "string \<Rightarrow> string list \<Rightarrow> string \<Rightarrow> run_error \<Rightarrow> error" where
  "run_failure command args out err =
     Error (''error while running command '' @ [CHR 0x27] @ command_line command args @ [CHR 0x27]
            @ ''; out: '' @ out @ ''; err: '' @ run_error_text err)"

text \<open>
  \<open>exec\<close>: the directory of the command is \<open>filepath.Join(cmd.Dir, cd)\<close>, where
  \<open>cmd.Dir\<close> is still empty.
\<close>

definition exec ::
  "system \<Rightarrow> Runner \<Rightarrow> string \<Rightarrow> string \<Rightarrow> string list \<Rightarrow> event list \<Rightarrow> (error + string) \<times> event list"
where
  "exec w c cd command args tr =
     (let dir = filepath_Join w ['''', cd];
          (b, res) = cmd_Run w tr dir command args;
          tr' = tr @ [Run dir command args]
      in case res of
           Some err \<Rightarrow>
             (case err of
                ExitError _ \<Rightarrow>
                  if verbose c then (Inl (run_failure command args b err), tr')
                  else (Inl (Error b), tr')
              | OtherError _ \<Rightarrow> (Inl (run_failure command args b err), tr'))
         | None \<Rightarrow> (Inr (TrimRight b [CHR 0x0A]), tr'))"

definition execGo ::
  "system \<Rightarrow> Runner \<Rightarrow> string list \<Rightarrow> event list \<Rightarrow> (error + string) \<times> event list"
where
  "execGo w c args tr = exec w c '''' (goCmd c) args tr"

definition execGoInModDir ::
  "system \<Rightarrow> Runner \<Rightarrow> string list \<Rightarrow> event list \<Rightarrow> (error + string) \<times> event list"
where
  "execGoInModDir w c args tr = exec w c (modDir c) (goCmd c) args tr"

text \<open>\<open>NewRunner\<close>. The steps are nested as the early returns of the source are.\<close>

definition NewRunner ::
  "system \<Rightarrow> bool \<Rightarrow> string \<Rightarrow> string \<Rightarrow> event list \<Rightarrow> (error + Runner) \<times> event list"
where
  "NewRunner w insecure' modDir' goCmd' tr0 =
     (let r = \<lparr>goCmd = goCmd', modDir = modDir', insecure = insecure', verbose = False\<rparr>
      in case execGo w r [''version''] tr0 of
           (Inl err, tr1) \<Rightarrow> (Inl (Wrap err ''exec go to detect the version''), tr1)
         | (Inr ver, tr1) \<Rightarrow>
             (if \<not> HasPrefix ver ''go version go1.14.'' then
                (Inl (Error (''found unsupported go version: '' @ ver @ ''. Requires go1.14.x'')), tr1)
              else
                (let tr2 = tr1 @ [MkdirAll modDir'] in
                 (case os_MkdirAll w tr1 modDir' of
                    Some e \<Rightarrow>
                      (Inl (Wrap (Error (os_error_text e)) (''create moddir '' @ modDir')), tr2)
                  | None \<Rightarrow>
                      (let gomod = filepath_Join w [modDir r, ''go.mod''];
                           tr3 = tr2 @ [Stat gomod]
                       in (case os_Stat w tr2 gomod of
                             None \<Rightarrow> (Inr r, tr3)
                           | Some e \<Rightarrow>
                               (if \<not> IsNotExist e then
                                  (Inl (Wrap (Error (os_error_text e)) (''stat module file '' @ gomod)),
                                   tr3)
                                else
                                  (case execGo w r [''list'', ''-m''] tr3 of
                                     (Inl err, tr4) \<Rightarrow> (Inl err, tr4)
                                   | (Inr currMod, tr4) \<Rightarrow>
                                       (case execGoInModDir w r
                                               [''mod'', ''init'', filepath_Join w [currMod, modDir r]]
                                               tr4 of
                                          (Inl err, tr5) \<Rightarrow> (Inl err, tr5)
                                        | (Inr _, tr5) \<Rightarrow> (Inr r, tr5))))))))))"

subsection \<open>The update policy and the three commands\<close>

text \<open>\<open>GetUpdatePolicy\<close> is a string type with three named values.\<close>

type_synonym GetUpdatePolicy = string

definition NoUpdatePolicy :: GetUpdatePolicy where
  "NoUpdatePolicy = ''''"

definition UpdatePolicy :: GetUpdatePolicy where
  "UpdatePolicy = ''-u''"

definition UpdatePatchPolicy :: GetUpdatePolicy where
  "UpdatePatchPolicy = ''-u=patch''"

text \<open>The three commands drop the output of the subprocess and return its error, if any.\<close>

definition GetD ::
  "system \<Rightarrow> Runner \<Rightarrow> GetUpdatePolicy \<Rightarrow> string list \<Rightarrow> event list \<Rightarrow> error option \<times> event list"
where
  "GetD w c update packages tr =
     (let args = [''get'', ''-d''];
          args = (if insecure c then args @ [''-insecure''] else args);
          args = (if update \<noteq> NoUpdatePolicy then args @ [update] else args)
      in case execGoInModDir w c (args @ packages) tr of
           (Inl err, tr') \<Rightarrow> (Some err, tr')
         | (Inr _, tr') \<Rightarrow> (None, tr'))"

definition Install ::
  "system \<Rightarrow> Runner \<Rightarrow> string list \<Rightarrow> event list \<Rightarrow> error option \<times> event list"
where
  "Install w c packages tr =
     (case execGoInModDir w c ([''install''] @ packages) tr of
        (Inl err, tr') \<Rightarrow> (Some err, tr')
      | (Inr _, tr') \<Rightarrow> (None, tr'))"

definition ModTidy :: "system \<Rightarrow> Runner \<Rightarrow> event list \<Rightarrow> error option \<times> event list" where
  "ModTidy w c tr =
     (case execGoInModDir w c [''mod'', ''tidy''] tr of
        (Inl err, tr') \<Rightarrow> (Some err, tr')
      | (Inr _, tr') \<Rightarrow> (None, tr'))"

subsection \<open>Stub systems for the examples\<close>

text \<open>
  The examples run the program against a stub of the Go tool and of the file system.
  \<open>stub_Join\<close> joins the non-empty elements with a slash, which is what
  \<open>filepath.Join\<close> gives on Unix for the clean paths of the examples. A stub system
  answers every run by a function of the arguments alone, creates every directory, and
  gives one fixed answer to every stat.
\<close>

definition stub_Join :: "string list \<Rightarrow> string" where
  "stub_Join elems = strings_Join (filter (\<lambda>e. e \<noteq> []) elems) ''/''"

definition stub_system ::
  "(string list \<Rightarrow> string \<times> run_error option) \<Rightarrow> os_error option \<Rightarrow> system"
where
  "stub_system tool st =
     \<lparr>filepath_Join = stub_Join,
      cmd_Run = (\<lambda>tr dir command args. tool args),
      os_MkdirAll = (\<lambda>tr path. None),
      os_Stat = (\<lambda>tr path. st)\<rparr>"

text \<open>A Go 1.14.9 that knows the current module and runs every other command silently.\<close>

definition go114 :: "string list \<Rightarrow> string \<times> run_error option" where
  "go114 args =
     (if args = [''version''] then (''go version go1.14.9 linux/amd64'' @ [CHR 0x0A], None)
      else if args = [''list'', ''-m''] then (''example.com/mod'' @ [CHR 0x0A], None)
      else ('''', None))"

text \<open>The same tool outside of any module: \<open>list -m\<close> exits with status 1.\<close>

definition go114_no_module :: "string list \<Rightarrow> string \<times> run_error option" where
  "go114_no_module args =
     (if args = [''version''] then (''go version go1.14.9 linux/amd64'' @ [CHR 0x0A], None)
      else if args = [''list'', ''-m''] then
        (''go: cannot find main module'' @ [CHR 0x0A], Some (ExitError ''exit status 1''))
      else ('''', None))"

text \<open>A Go 1.13.\<close>

definition go113 :: "string list \<Rightarrow> string \<times> run_error option" where
  "go113 args =
     (if args = [''version''] then (''go version go1.13.4 linux/amd64'' @ [CHR 0x0A], None)
      else ('''', None))"

text \<open>A tool that prints a complaint and exits with status 1 on every command.\<close>

definition go_failing :: "string list \<Rightarrow> string \<times> run_error option" where
  "go_failing args = (''go: unknown import path'' @ [CHR 0x0A], Some (ExitError ''exit status 1''))"

text \<open>A tool that is not installed.\<close>

definition go_missing :: "string list \<Rightarrow> string \<times> run_error option" where
  "go_missing args = ('''', Some (OtherError ''executable file not found in $PATH''))"

definition not_found :: os_error where
  "not_found = OsError True ''no such file or directory''"

text \<open>A runner as \<open>NewRunner\<close> builds it, and the same runner with the verbose flag set.\<close>

definition quiet_runner :: Runner where
  "quiet_runner = \<lparr>goCmd = ''go'', modDir = ''.bingo'', insecure = True, verbose = False\<rparr>"

definition verbose_runner :: Runner where
  "verbose_runner = \<lparr>goCmd = ''go'', modDir = ''.bingo'', insecure = True, verbose = True\<rparr>"

section \<open>Properties\<close>

subsection \<open>Every call of the helper is one subprocess run\<close>

text \<open>
  The directory of a run is \<open>filepath.Join\<close> of the empty \<open>cmd.Dir\<close> and the directory
  asked for: of the empty string for \<open>execGo\<close> (the run inherits the current directory of
  the caller), of \<open>modDir\<close> for \<open>execGoInModDir\<close> (the run happens in the module directory).
\<close>

lemma exec_trace:
  "snd (exec w c cd command args tr) = tr @ [Run (filepath_Join w ['''', cd]) command args]"
  by (simp add: exec_def Let_def split: prod.splits option.splits run_error.splits)

lemma execGoInModDir_trace:
  "snd (execGoInModDir w c args tr) = tr @ [Run (filepath_Join w ['''', modDir c]) (goCmd c) args]"
  by (simp add: execGoInModDir_def exec_trace)

lemma drop_output_trace:
  "snd (case p of (Inl err, tr') \<Rightarrow> (Some err, tr') | (Inr x, tr') \<Rightarrow> (None, tr')) = snd p"
  by (cases p; cases "fst p") auto

lemma exec_result:
  "cmd_Run w tr (filepath_Join w ['''', cd]) command args = (b, res) \<Longrightarrow>
   exec w c cd command args tr =
     ((case res of
         None \<Rightarrow> Inr (TrimRight b [CHR 0x0A])
       | Some (ExitError e) \<Rightarrow>
           if verbose c then Inl (run_failure command args b (ExitError e)) else Inl (Error b)
       | Some (OtherError e) \<Rightarrow> Inl (run_failure command args b (OtherError e))),
      tr @ [Run (filepath_Join w ['''', cd]) command args])"
  by (simp add: exec_def Let_def split: option.splits run_error.splits)

lemma execGo_result:
  "cmd_Run w tr (filepath_Join w ['''', '''']) (goCmd c) args = (b, res) \<Longrightarrow>
   execGo w c args tr =
     ((case res of
         None \<Rightarrow> Inr (TrimRight b [CHR 0x0A])
       | Some (ExitError e) \<Rightarrow>
           if verbose c then Inl (run_failure (goCmd c) args b (ExitError e)) else Inl (Error b)
       | Some (OtherError e) \<Rightarrow> Inl (run_failure (goCmd c) args b (OtherError e))),
      tr @ [Run (filepath_Join w ['''', '''']) (goCmd c) args])"
  by (simp add: execGo_def exec_result)

lemma execGoInModDir_result:
  "cmd_Run w tr (filepath_Join w ['''', modDir c]) (goCmd c) args = (b, res) \<Longrightarrow>
   execGoInModDir w c args tr =
     ((case res of
         None \<Rightarrow> Inr (TrimRight b [CHR 0x0A])
       | Some (ExitError e) \<Rightarrow>
           if verbose c then Inl (run_failure (goCmd c) args b (ExitError e)) else Inl (Error b)
       | Some (OtherError e) \<Rightarrow> Inl (run_failure (goCmd c) args b (OtherError e))),
      tr @ [Run (filepath_Join w ['''', modDir c]) (goCmd c) args])"
  by (simp add: execGoInModDir_def exec_result)

subsection \<open>Trailing newlines\<close>

lemma TrimRight_decomp:
  "\<exists>n. s = TrimRight s [c] @ replicate n c"
proof -
  let ?P = "\<lambda>x. x = c"
  have "rev s = takeWhile ?P (rev s) @ dropWhile ?P (rev s)"
    by simp
  then have "rev (rev s) = rev (takeWhile ?P (rev s) @ dropWhile ?P (rev s))"
    by simp
  then have split: "s = rev (dropWhile ?P (rev s)) @ rev (takeWhile ?P (rev s))"
    by (simp only: rev_rev_ident rev_append)
  have "\<forall>x \<in> set (rev (takeWhile ?P (rev s))). x = c"
    by (auto dest: set_takeWhileD)
  then have "rev (takeWhile ?P (rev s)) = replicate (length (rev (takeWhile ?P (rev s)))) c"
    by (metis replicate_length_same)
  with split have "s = TrimRight s [c] @ replicate (length (rev (takeWhile ?P (rev s)))) c"
    by (simp add: TrimRight_def)
  then show ?thesis ..
qed

lemma TrimRight_last:
  "TrimRight s [c] = [] \<or> last (TrimRight s [c]) \<noteq> c"
proof (cases "dropWhile (\<lambda>x. x = c) (rev s)")
  case Nil
  then show ?thesis by (simp add: TrimRight_def)
next
  case (Cons y ys)
  then have "hd (dropWhile (\<lambda>x. x = c) (rev s)) \<noteq> c"
    using hd_dropWhile [of "\<lambda>x. x = c" "rev s"] by simp
  then show ?thesis
    using Cons by (simp add: TrimRight_def last_rev)
qed

subsection \<open>The subprocess helper\<close>

lemma run_failure_parts:
  "\<exists>m. run_failure command args b err = Error m
       \<and> sublist (command_line command args) m \<and> sublist b m \<and> sublist (run_error_text err) m"
proof -
  let ?m = "''error while running command '' @ [CHR 0x27] @ command_line command args @ [CHR 0x27]
            @ ''; out: '' @ b @ ''; err: '' @ run_error_text err"
  have "sublist (command_line command args)
          ((''error while running command '' @ [CHR 0x27]) @ command_line command args
             @ ([CHR 0x27] @ ''; out: '' @ b @ ''; err: '' @ run_error_text err))"
    by (rule sublist_appendI)
  then have 1: "sublist (command_line command args) ?m" by simp
  have "sublist b
          ((''error while running command '' @ [CHR 0x27] @ command_line command args @ [CHR 0x27]
             @ ''; out: '') @ b @ (''; err: '' @ run_error_text err))"
    by (rule sublist_appendI)
  then have 2: "sublist b ?m" by simp
  have "sublist (run_error_text err)
          ((''error while running command '' @ [CHR 0x27] @ command_line command args @ [CHR 0x27]
             @ ''; out: '' @ b @ ''; err: '') @ run_error_text err)"
    by (rule sublist_append_leftI)
  then have 3: "sublist (run_error_text err) ?m" by simp
  show ?thesis
    unfolding run_failure_def using 1 2 3 by blast
qed

text \<open>
  C7. When the subprocess exits with status zero, \<open>exec\<close> succeeds, and what it returns is
  the captured output without its trailing newlines: the output is the result followed by
  newlines only, and the result does not end in a newline.
\<close>

theorem exec_success:
  assumes "cmd_Run w tr (filepath_Join w ['''', cd]) command args = (b, None)"
  shows "\<exists>s n. fst (exec w c cd command args tr) = Inr s
             \<and> b = s @ replicate n (CHR 0x0A)
             \<and> (s = [] \<or> last s \<noteq> CHR 0x0A)"
  using exec_result [OF assms, of c] TrimRight_decomp [of b "CHR 0x0A"] TrimRight_last [of b "CHR 0x0A"]
  by auto

theorem exec_success_witness:
  "fst (exec (stub_system (\<lambda>args. (''a'' @ [CHR 0x0A] @ ''b '' @ [CHR 0x0A, CHR 0x0A], None)) None)
          quiet_runner '''' ''go'' [''env''] [])
     = Inr (''a'' @ [CHR 0x0A] @ ''b '')"
  using exec_success [of "stub_system (\<lambda>args. (''a'' @ [CHR 0x0A] @ ''b '' @ [CHR 0x0A, CHR 0x0A], None)) None"
       "[]" "''''" "''go''" "[''env'']" "''a'' @ [CHR 0x0A] @ ''b '' @ [CHR 0x0A, CHR 0x0A]" quiet_runner]
  by (simp add: stub_system_def stub_Join_def exec_def TrimRight_def)

text \<open>
  C3. When the subprocess ends in an exit error, the failure of \<open>exec\<close> is, for a runner that
  is not verbose, exactly the captured output, and, for a verbose runner, a message that
  contains the command line (the command and its arguments, separated by blanks), the
  captured output and the text of the exit error.
\<close>

theorem exec_exit_error:
  assumes "cmd_Run w tr (filepath_Join w ['''', cd]) command args = (b, Some (ExitError e))"
  shows "(\<not> verbose c \<longrightarrow> fst (exec w c cd command args tr) = Inl (Error b))
       \<and> (verbose c \<longrightarrow>
            (\<exists>m. fst (exec w c cd command args tr) = Inl (Error m)
                \<and> sublist (command @ '' '' @ strings_Join args '' '') m
                \<and> sublist b m \<and> sublist e m))"
  using exec_result [OF assms, of c] run_failure_parts [of command args b "ExitError e"]
  by (auto simp add: command_line_def)

theorem exec_exit_error_witness:
  "fst (exec (stub_system go_failing None) quiet_runner ''.bingo'' ''go'' [''get'', ''-d'', ''x''] [])
     = Inl (Error (''go: unknown import path'' @ [CHR 0x0A]))
   \<and> fst (exec (stub_system go_failing None) verbose_runner ''.bingo'' ''go'' [''get'', ''-d'', ''x''] [])
     = Inl (Error (''error while running command '' @ [CHR 0x27] @ ''go get -d x'' @ [CHR 0x27]
          @ ''; out: go: unknown import path'' @ [CHR 0x0A] @ ''; err: exit status 1''))"
  using exec_exit_error [of "stub_system go_failing None" "[]" "''.bingo''" "''go''"
      "[''get'', ''-d'', ''x'']" "''go: unknown import path'' @ [CHR 0x0A]" "''exit status 1''" quiet_runner]
    exec_exit_error [of "stub_system go_failing None" "[]" "''.bingo''" "''go''"
      "[''get'', ''-d'', ''x'']" "''go: unknown import path'' @ [CHR 0x0A]" "''exit status 1''" verbose_runner]
  by (simp add: stub_system_def stub_Join_def go_failing_def quiet_runner_def verbose_runner_def
      exec_def run_failure_def command_line_def)

text \<open>
  C6. When the subprocess fails in any other way, the failure of \<open>exec\<close> is a message that
  contains the command line, the captured output and the text of the error, whether the
  runner is verbose or not.
\<close>

theorem exec_other_error:
  assumes "cmd_Run w tr (filepath_Join w ['''', cd]) command args = (b, Some (OtherError e))"
  shows "\<exists>m. fst (exec w c cd command args tr) = Inl (Error m)
           \<and> sublist (command @ '' '' @ strings_Join args '' '') m
           \<and> sublist b m \<and> sublist e m"
  using exec_result [OF assms, of c] run_failure_parts [of command args b "OtherError e"]
  by (auto simp add: command_line_def)

theorem exec_other_error_witness:
  "fst (exec (stub_system go_missing None) quiet_runner ''.bingo'' ''go'' [''mod'', ''tidy''] [])
     = Inl (Error (''error while running command '' @ [CHR 0x27] @ ''go mod tidy'' @ [CHR 0x27]
          @ ''; out: ; err: executable file not found in $PATH''))
   \<and> fst (exec (stub_system go_missing None) verbose_runner ''.bingo'' ''go'' [''mod'', ''tidy''] [])
     = fst (exec (stub_system go_missing None) quiet_runner ''.bingo'' ''go'' [''mod'', ''tidy''] [])"
  using exec_other_error [of "stub_system go_missing None" "[]" "''.bingo''" "''go''"
      "[''mod'', ''tidy'']" "''''" "''executable file not found in $PATH''" quiet_runner]
    exec_other_error [of "stub_system go_missing None" "[]" "''.bingo''" "''go''"
      "[''mod'', ''tidy'']" "''''" "''executable file not found in $PATH''" verbose_runner]
  by (simp add: stub_system_def stub_Join_def go_missing_def quiet_runner_def verbose_runner_def
      exec_def run_failure_def command_line_def)

subsection \<open>The argument lists of the three commands\<close>

text \<open>
  C1. \<open>GetD\<close> with policy \<open>p\<close> and packages \<open>ps\<close> runs the tool with the arguments
  \<open>get\<close>, \<open>-d\<close>, then \<open>-insecure\<close> exactly when the runner is insecure, then the
  policy's string exactly when the policy is not the no-update one, then the packages. So
  the flags come before the packages, with the update-all policy the flags end in \<open>-u\<close>,
  and \<open>-insecure\<close> stands before the update flag.
\<close>

theorem GetD_argument_order:
  "\<exists>flags.
     snd (GetD w c p ps tr) = tr @ [Run (filepath_Join w ['''', modDir c]) (goCmd c) (flags @ ps)]
     \<and> flags = [''get'', ''-d''] @ (if insecure c then [''-insecure''] else [])
                 @ (if p \<noteq> NoUpdatePolicy then [p] else [])
     \<and> (p = UpdatePolicy \<longrightarrow> last flags = ''-u'')
     \<and> (insecure c \<and> p \<noteq> NoUpdatePolicy \<longrightarrow> flags = [''get'', ''-d'', ''-insecure'', p])"
proof -
  have "snd (GetD w c p ps tr) =
          tr @ [Run (filepath_Join w ['''', modDir c]) (goCmd c)
                  (([''get'', ''-d''] @ (if insecure c then [''-insecure''] else [])
                     @ (if p \<noteq> NoUpdatePolicy then [p] else [])) @ ps)]"
    by (simp add: GetD_def Let_def drop_output_trace execGoInModDir_trace)
  then show ?thesis
    by (auto simp add: UpdatePolicy_def NoUpdatePolicy_def)
qed

theorem GetD_argument_order_witness:
  "snd (GetD (stub_system go114 None) quiet_runner UpdatePolicy [''example.com/tool@v1.2.3''] []) =
     [Run ''.bingo'' ''go'' [''get'', ''-d'', ''-insecure'', ''-u'', ''example.com/tool@v1.2.3'']]"
  using GetD_argument_order [of "stub_system go114 None" quiet_runner UpdatePolicy
      "[''example.com/tool@v1.2.3'']" "[]"]
  by (simp add: stub_system_def stub_Join_def quiet_runner_def UpdatePolicy_def NoUpdatePolicy_def)

text \<open>
  C8. \<open>Install\<close> with packages \<open>ps\<close> runs the tool exactly once, in the module
  directory, with the arguments \<open>install\<close> and then \<open>ps\<close>; \<open>ModTidy\<close> runs it exactly
  once, in the module directory, with the arguments \<open>mod\<close>, \<open>tidy\<close>. The trace grows by
  this one run whatever the run returns: there is no second attempt.
\<close>

theorem Install_ModTidy_single_run:
  "snd (Install w c ps tr) = tr @ [Run (filepath_Join w ['''', modDir c]) (goCmd c) (''install'' # ps)]
   \<and> snd (ModTidy w c tr) = tr @ [Run (filepath_Join w ['''', modDir c]) (goCmd c) [''mod'', ''tidy'']]"
  by (simp add: Install_def ModTidy_def drop_output_trace execGoInModDir_trace)

subsection \<open>Construction\<close>

lemma NewRunner_version_failed:
  assumes "cmd_Run w tr (filepath_Join w ['''', '''']) g [''version''] = (vout, Some err)"
  shows "\<exists>e. NewRunner w i d g tr = (Inl e, tr @ [Run (filepath_Join w ['''', '''']) g [''version'']])"
  using execGo_result [of w tr "\<lparr>goCmd = g, modDir = d, insecure = i, verbose = False\<rparr>"
      "[''version'']" vout "Some err"] assms
  by (cases err) (simp_all add: NewRunner_def)

lemma NewRunner_version_unsupported:
  assumes "cmd_Run w tr (filepath_Join w ['''', '''']) g [''version''] = (vout, None)"
      and "\<not> HasPrefix (TrimRight vout [CHR 0x0A]) ''go version go1.14.''"
  shows "NewRunner w i d g tr =
           (Inl (Error (''found unsupported go version: '' @ TrimRight vout [CHR 0x0A]
                          @ ''. Requires go1.14.x'')),
            tr @ [Run (filepath_Join w ['''', '''']) g [''version'']])"
  using execGo_result [of w tr "\<lparr>goCmd = g, modDir = d, insecure = i, verbose = False\<rparr>"
      "[''version'']" vout None] assms
  by (simp add: NewRunner_def)

lemma NewRunner_after_stat:
  assumes "cmd_Run w tr (filepath_Join w ['''', '''']) g [''version''] = (vout, None)"
      and "HasPrefix (TrimRight vout [CHR 0x0A]) ''go version go1.14.''"
      and "tr1 = tr @ [Run (filepath_Join w ['''', '''']) g [''version'']]"
      and "os_MkdirAll w tr1 d = None"
      and "tr2 = tr1 @ [MkdirAll d]"
      and "tr3 = tr2 @ [Stat (filepath_Join w [d, ''go.mod''])]"
      and "r = \<lparr>goCmd = g, modDir = d, insecure = i, verbose = False\<rparr>"
  shows "NewRunner w i d g tr =
           (case os_Stat w tr2 (filepath_Join w [d, ''go.mod'']) of
              None \<Rightarrow> (Inr r, tr3)
            | Some e \<Rightarrow>
                (if \<not> IsNotExist e then
                   (Inl (Wrap (Error (os_error_text e))
                           (''stat module file '' @ filepath_Join w [d, ''go.mod''])), tr3)
                 else
                   (case execGo w r [''list'', ''-m''] tr3 of
                      (Inl err, tr4) \<Rightarrow> (Inl err, tr4)
                    | (Inr currMod, tr4) \<Rightarrow>
                        (case execGoInModDir w r [''mod'', ''init'', filepath_Join w [currMod, d]] tr4 of
                           (Inl err, tr5) \<Rightarrow> (Inl err, tr5)
                         | (Inr _, tr5) \<Rightarrow> (Inr r, tr5)))))"
  using execGo_result [of w tr "\<lparr>goCmd = g, modDir = d, insecure = i, verbose = False\<rparr>"
      "[''version'']" vout None] assms
  by (simp add: NewRunner_def Let_def split: option.splits prod.splits sum.splits)

lemma NewRunner_runner:
  assumes "NewRunner w i d g tr = (Inr r, tr')"
  shows "r = \<lparr>goCmd = g, modDir = d, insecure = i, verbose = False\<rparr>"
  using assms
  by (simp add: NewRunner_def Let_def split: prod.splits sum.splits if_splits option.splits)

text \<open>
  C4. When the version run succeeds and its output, without the trailing newlines, does not
  start with \<open>go version go1.14.\<close>, \<open>NewRunner\<close> fails, and the message of the failure
  contains that output as it is.
\<close>

theorem NewRunner_unsupported_version:
  assumes "cmd_Run w tr (filepath_Join w ['''', '''']) g [''version''] = (vout, None)"
      and "\<not> HasPrefix (TrimRight vout [CHR 0x0A]) ''go version go1.14.''"
  shows "\<exists>m. fst (NewRunner w i d g tr) = Inl (Error m) \<and> sublist (TrimRight vout [CHR 0x0A]) m"
proof -
  let ?m = "''found unsupported go version: '' @ TrimRight vout [CHR 0x0A] @ ''. Requires go1.14.x''"
  have "fst (NewRunner w i d g tr) = Inl (Error ?m)"
    by (simp only: NewRunner_version_unsupported [OF assms] fst_conv)
  moreover have "sublist (TrimRight vout [CHR 0x0A]) ?m"
    by (rule sublist_appendI)
  ultimately show ?thesis by blast
qed

theorem NewRunner_unsupported_version_witness:
  "fst (NewRunner (stub_system go113 None) False ''.bingo'' ''go'' []) =
     Inl (Error ''found unsupported go version: go version go1.13.4 linux/amd64. Requires go1.14.x'')"
  using NewRunner_unsupported_version [of "stub_system go113 None" "[]" "''go''"
      "''go version go1.13.4 linux/amd64'' @ [CHR 0x0A]" False "''.bingo''"]
  by (simp add: stub_system_def stub_Join_def go113_def NewRunner_def execGo_def exec_def
      TrimRight_def HasPrefix_def)

text \<open>
  C10. When the version check fails, because the version run fails or because its output
  lacks the prefix, \<open>NewRunner\<close> fails and the version run is the only call it has made:
  no directory is created, the manifest is not looked for, and no other subprocess runs.
\<close>

theorem NewRunner_version_check_first:
  assumes "cmd_Run w tr (filepath_Join w ['''', '''']) g [''version''] = (vout, vres)"
      and "vres \<noteq> None \<or> \<not> HasPrefix (TrimRight vout [CHR 0x0A]) ''go version go1.14.''"
  shows "\<exists>e. NewRunner w i d g tr = (Inl e, tr @ [Run (filepath_Join w ['''', '''']) g [''version'']])"
proof (cases vres)
  case None
  with assms show ?thesis
    using NewRunner_version_unsupported [of w tr g vout i d] by simp
next
  case (Some err)
  with assms show ?thesis
    using NewRunner_version_failed [of w tr g vout err i d] by simp
qed

theorem NewRunner_version_check_first_witness:
  "snd (NewRunner (stub_system go113 (Some not_found)) False ''.bingo'' ''go'' []) =
     [Run '''' ''go'' [''version'']]
   \<and> snd (NewRunner (stub_system go_missing (Some not_found)) False ''.bingo'' ''go'' []) =
     [Run '''' ''go'' [''version'']]"
  using NewRunner_version_check_first [of "stub_system go113 (Some not_found)" "[]" "''go''"
      "''go version go1.13.4 linux/amd64'' @ [CHR 0x0A]" None False "''.bingo''"]
    NewRunner_version_check_first [of "stub_system go_missing (Some not_found)" "[]" "''go''"
      "''''" "Some (OtherError ''executable file not found in $PATH'')" False "''.bingo''"]
  by (auto simp add: stub_system_def stub_Join_def go113_def go_missing_def TrimRight_def HasPrefix_def)

text \<open>
  C5. When the version check and the creation of the directory succeed and the stat of the
  manifest succeeds, \<open>NewRunner\<close> returns the runner with the given configuration after
  the version run, the \<open>MkdirAll\<close> and the stat: it runs neither \<open>list -m\<close> nor
  \<open>mod init\<close>.
\<close>

theorem NewRunner_existing_manifest:
  assumes "cmd_Run w tr (filepath_Join w ['''', '''']) g [''version''] = (vout, None)"
      and "HasPrefix (TrimRight vout [CHR 0x0A]) ''go version go1.14.''"
      and "tr1 = tr @ [Run (filepath_Join w ['''', '''']) g [''version'']]"
      and "os_MkdirAll w tr1 d = None"
      and "tr2 = tr1 @ [MkdirAll d]"
      and "os_Stat w tr2 (filepath_Join w [d, ''go.mod'']) = None"
  shows "NewRunner w i d g tr =
           (Inr \<lparr>goCmd = g, modDir = d, insecure = i, verbose = False\<rparr>,
            tr @ [Run (filepath_Join w ['''', '''']) g [''version''], MkdirAll d,
                  Stat (filepath_Join w [d, ''go.mod''])])"
  using NewRunner_after_stat [OF assms(1-5) refl refl, of i] assms(3,5,6)
  by simp

theorem NewRunner_existing_manifest_witness:
  "NewRunner (stub_system go114 None) True ''.bingo'' ''go'' [] =
     (Inr quiet_runner, [Run '''' ''go'' [''version''], MkdirAll ''.bingo'', Stat ''.bingo/go.mod''])"
  using NewRunner_existing_manifest [of "stub_system go114 None" "[]" "''go''"
      "''go version go1.14.9 linux/amd64'' @ [CHR 0x0A]" "[Run '''' ''go'' [''version'']]" "''.bingo''"
      "[Run '''' ''go'' [''version''], MkdirAll ''.bingo'']" True]
  by (simp add: stub_system_def stub_Join_def go114_def TrimRight_def HasPrefix_def quiet_runner_def)

text \<open>
  C2, as amended. For every construction where the stat of the manifest fails with
  "not found" (and the version check and the creation of the directory succeeded),
  construction performs exactly one \<open>list -m\<close> subprocess call, followed, when that call
  succeeds, by exactly one \<open>mod init\<close> subprocess call whose module-name argument equals
  the current module name joined with the relative working-directory path; when the
  \<open>list -m\<close> call fails, no \<open>mod init\<close> call is made. A failure of either call makes
  construction fail.

  In the statement, \<open>d\<close> is the relative working-directory path as it is given to
  \<open>NewRunner\<close>, the current module name is what \<open>execGo\<close> returns for \<open>list -m\<close>, and
  \<open>tr4\<close> and \<open>tr5\<close> are the traces that end in the \<open>list -m\<close> call and in the
  \<open>mod init\<close> call.
\<close>

theorem NewRunner_bootstrap:
  assumes "cmd_Run w tr (filepath_Join w ['''', '''']) g [''version''] = (vout, None)"
      and "HasPrefix (TrimRight vout [CHR 0x0A]) ''go version go1.14.''"
      and "tr1 = tr @ [Run (filepath_Join w ['''', '''']) g [''version'']]"
      and "os_MkdirAll w tr1 d = None"
      and "tr2 = tr1 @ [MkdirAll d]"
      and "os_Stat w tr2 (filepath_Join w [d, ''go.mod'']) = Some e"
      and "IsNotExist e"
      and "tr3 = tr2 @ [Stat (filepath_Join w [d, ''go.mod''])]"
      and "cmd_Run w tr3 (filepath_Join w ['''', '''']) g [''list'', ''-m''] = (lout, lres)"
      and "tr4 = tr3 @ [Run (filepath_Join w ['''', '''']) g [''list'', ''-m'']]"
      and "name = filepath_Join w [TrimRight lout [CHR 0x0A], d]"
      and "cmd_Run w tr4 (filepath_Join w ['''', d]) g [''mod'', ''init'', name] = (iout, ires)"
      and "tr5 = tr4 @ [Run (filepath_Join w ['''', d]) g [''mod'', ''init'', name]]"
  shows "(lres \<noteq> None \<longrightarrow> (\<exists>err. NewRunner w i d g tr = (Inl err, tr4)))
       \<and> (lres = None \<and> ires \<noteq> None \<longrightarrow> (\<exists>err. NewRunner w i d g tr = (Inl err, tr5)))
       \<and> (lres = None \<and> ires = None \<longrightarrow>
            NewRunner w i d g tr =
              (Inr \<lparr>goCmd = g, modDir = d, insecure = i, verbose = False\<rparr>, tr5))"
proof -
  let ?r = "\<lparr>goCmd = g, modDir = d, insecure = i, verbose = False\<rparr>"
  have start: "NewRunner w i d g tr =
      (case execGo w ?r [''list'', ''-m''] tr3 of
         (Inl err, tr4) \<Rightarrow> (Inl err, tr4)
       | (Inr currMod, tr4) \<Rightarrow>
           (case execGoInModDir w ?r [''mod'', ''init'', filepath_Join w [currMod, d]] tr4 of
              (Inl err, tr5) \<Rightarrow> (Inl err, tr5)
            | (Inr _, tr5) \<Rightarrow> (Inr ?r, tr5)))"
    using NewRunner_after_stat [OF assms(1-5) assms(8) refl, of i] assms(6,7)
    by simp
  have list: "execGo w ?r [''list'', ''-m''] tr3 =
      ((case lres of
          None \<Rightarrow> Inr (TrimRight lout [CHR 0x0A])
        | Some (ExitError x) \<Rightarrow> Inl (Error lout)
        | Some (OtherError x) \<Rightarrow> Inl (run_failure g [''list'', ''-m''] lout (OtherError x))),
       tr4)"
    using execGo_result [of w tr3 ?r "[''list'', ''-m'']" lout lres] assms(9,10)
    by (simp split: option.splits run_error.splits)
  have init: "execGoInModDir w ?r [''mod'', ''init'', name] tr4 =
      ((case ires of
          None \<Rightarrow> Inr (TrimRight iout [CHR 0x0A])
        | Some (ExitError x) \<Rightarrow> Inl (Error iout)
        | Some (OtherError x) \<Rightarrow> Inl (run_failure g [''mod'', ''init'', name] iout (OtherError x))),
       tr5)"
    using execGoInModDir_result [of w tr4 ?r "[''mod'', ''init'', name]" iout ires] assms(12,13)
    by (simp split: option.splits run_error.splits)
  have failed: "lres \<noteq> None \<longrightarrow> (\<exists>err. NewRunner w i d g tr = (Inl err, tr4))"
    by (simp add: start list split: option.splits run_error.splits)
  have init_failed: "lres = None \<and> ires \<noteq> None \<longrightarrow> (\<exists>err. NewRunner w i d g tr = (Inl err, tr5))"
    using init assms(11)
    by (auto simp add: start list split: option.splits run_error.splits)
  have ok: "lres = None \<and> ires = None \<longrightarrow> NewRunner w i d g tr = (Inr ?r, tr5)"
    using init assms(11)
    by (auto simp add: start list split: option.splits run_error.splits)
  from failed init_failed ok show ?thesis by blast
qed

theorem NewRunner_bootstrap_witness:
  "NewRunner (stub_system go114 (Some not_found)) True ''.bingo'' ''go'' [] =
     (Inr quiet_runner,
      [Run '''' ''go'' [''version''], MkdirAll ''.bingo'', Stat ''.bingo/go.mod'',
       Run '''' ''go'' [''list'', ''-m''],
       Run ''.bingo'' ''go'' [''mod'', ''init'', ''example.com/mod/.bingo'']])"
  using NewRunner_bootstrap [of "stub_system go114 (Some not_found)" "[]" "''go''"
      "''go version go1.14.9 linux/amd64'' @ [CHR 0x0A]"
      "[Run '''' ''go'' [''version'']]" "''.bingo''"
      "[Run '''' ''go'' [''version''], MkdirAll ''.bingo'']"
      not_found
      "[Run '''' ''go'' [''version''], MkdirAll ''.bingo'', Stat ''.bingo/go.mod'']"
      "''example.com/mod'' @ [CHR 0x0A]" None
      "[Run '''' ''go'' [''version''], MkdirAll ''.bingo'', Stat ''.bingo/go.mod'',
        Run '''' ''go'' [''list'', ''-m'']]"
      "''example.com/mod/.bingo''" "''''" None
      "[Run '''' ''go'' [''version''], MkdirAll ''.bingo'', Stat ''.bingo/go.mod'',
        Run '''' ''go'' [''list'', ''-m''],
        Run ''.bingo'' ''go'' [''mod'', ''init'', ''example.com/mod/.bingo'']]" True]
  by (simp add: stub_system_def stub_Join_def go114_def TrimRight_def HasPrefix_def
      quiet_runner_def not_found_def)

text \<open>
  C2, as stated, asks for one \<open>mod init\<close> call after the \<open>list -m\<close> call in every
  construction that finds no manifest. With the relative working directory \<open>.bingo\<close>
  and a tool that is run outside of a module, \<open>list -m\<close> fails, and \<open>NewRunner\<close>
  returns its failure without a \<open>mod init\<close> call.
\<close>

theorem NewRunner_bootstrap_counterexample:
  "os_Stat (stub_system go114_no_module (Some not_found))
       [Run '''' ''go'' [''version''], MkdirAll ''.bingo''] ''.bingo/go.mod'' = Some not_found
   \<and> IsNotExist not_found
   \<and> NewRunner (stub_system go114_no_module (Some not_found)) False ''.bingo'' ''go'' [] =
       (Inl (Error (''go: cannot find main module'' @ [CHR 0x0A])),
        [Run '''' ''go'' [''version''], MkdirAll ''.bingo'', Stat ''.bingo/go.mod'',
         Run '''' ''go'' [''list'', ''-m'']])
   \<and> \<not> (\<exists>dir command name.
          Run dir command [''mod'', ''init'', name]
            \<in> set (snd (NewRunner (stub_system go114_no_module (Some not_found))
                          False ''.bingo'' ''go'' [])))"
proof -
  have run: "NewRunner (stub_system go114_no_module (Some not_found)) False ''.bingo'' ''go'' [] =
       (Inl (Error (''go: cannot find main module'' @ [CHR 0x0A])),
        [Run '''' ''go'' [''version''], MkdirAll ''.bingo'', Stat ''.bingo/go.mod'',
         Run '''' ''go'' [''list'', ''-m'']])"
    by (simp add: stub_system_def stub_Join_def go114_no_module_def TrimRight_def HasPrefix_def
        not_found_def NewRunner_def execGo_def exec_def)
  show ?thesis
    unfolding run by (simp add: stub_system_def not_found_def)
qed

text \<open>
  C9. A runner that \<open>NewRunner\<close> returns is not verbose. So for such a runner, in any
  system, a subprocess that ends in an exit error makes \<open>exec\<close> fail with exactly the
  captured output.
\<close>

theorem NewRunner_never_verbose:
  assumes "NewRunner w i d g tr = (Inr r, tr')"
  shows "\<not> verbose r
       \<and> (\<forall>w' t cd command args b e.
            cmd_Run w' t (filepath_Join w' ['''', cd]) command args = (b, Some (ExitError e))
            \<longrightarrow> fst (exec w' r cd command args t) = Inl (Error b))"
proof -
  have v: "\<not> verbose r"
    using NewRunner_runner [OF assms] by simp
  then show ?thesis
    by (auto simp add: exec_result)
qed

theorem NewRunner_never_verbose_witness:
  "NewRunner (stub_system go114 None) True ''.bingo'' ''go'' [] =
     (Inr quiet_runner, [Run '''' ''go'' [''version''], MkdirAll ''.bingo'', Stat ''.bingo/go.mod''])
   \<and> \<not> verbose quiet_runner
   \<and> fst (exec (stub_system go_failing None) quiet_runner ''.bingo'' ''go'' [''mod'', ''tidy''] [])
       = Inl (Error (''go: unknown import path'' @ [CHR 0x0A]))"
proof -
  have run: "NewRunner (stub_system go114 None) True ''.bingo'' ''go'' [] =
     (Inr quiet_runner, [Run '''' ''go'' [''version''], MkdirAll ''.bingo'', Stat ''.bingo/go.mod''])"
    by (simp add: stub_system_def stub_Join_def go114_def TrimRight_def HasPrefix_def
        quiet_runner_def NewRunner_def execGo_def exec_def)
  have fails: "cmd_Run (stub_system go_failing None) []
                 (filepath_Join (stub_system go_failing None) ['''', ''.bingo'']) ''go'' [''mod'', ''tidy'']
               = (''go: unknown import path'' @ [CHR 0x0A], Some (ExitError ''exit status 1''))"
    by (simp add: stub_system_def go_failing_def)
  from NewRunner_never_verbose [OF run] fails run show ?thesis
    by blast
qed

end
